theory Spec2Isabelle
  imports Complex_Main
begin

section \<open>The browser controller of the video analysis server\<close>

text \<open>
  The embedded program is the class \<open>VideoAnalysisApp\<close> of the frontend script.
  Every method is a function from the state before the call to the state after it.
  An \<open>async\<close> method is cut at each \<open>await\<close> of a network request: the part that
  runs synchronously up to the request (\<open>_begin\<close>) and the part that runs when the
  reply arrives (\<open>_resume\<close>, \<open>_reply\<close>). Calls of \<open>showNotification\<close>,
  \<open>fetch\<close> and \<open>setTimeout\<close> are recorded, in order, in the state.
  Console output is not user visible and is left out.
\<close>

subsection \<open>Data\<close>

record camera =
  cam_id :: nat
  cam_name :: string

record upload_file =
  file_name :: string
  file_type :: string
  file_size :: nat

text \<open>The object stored in \<open>this.currentVideo\<close>; only its \<open>filename\<close> is read again.\<close>

record video_info =
  vi_filename :: "string option"

text \<open>
  What \<open>await fetch(...)\<close> yields: the promise rejects (\<open>NetworkFailure\<close>) or
  resolves to a response with a status, a status text and a body. The body is
  \<open>None\<close> when reading it (\<open>response.json()\<close>, \<open>response.blob()\<close>) throws.
\<close>

datatype 'b response = NetworkFailure | Reply nat string "'b option"

fun ok :: "'b response \<Rightarrow> bool" where
  "ok NetworkFailure = False"
| "ok (Reply st txt b) = (200 \<le> st \<and> st \<le> 299)"

text \<open>JSON bodies, reduced to the fields the script reads.\<close>

record process_json =
  pj_error :: "string option"
  pj_processed_filename :: "string option"

record upload_json =
  uj_success :: bool
  uj_video_info :: "video_info option"
  uj_error :: "string option"
  uj_filename :: "string option"

datatype request =
    GetCameras
  | GetVideos
  | GetUploadedVideos
  | PostProcessVideo "string option" bool
  | GetProcessedVideo "string option"
  | PostUploadVideo upload_file
  | GetSnapshot nat

datatype timer_action = RetryLoad string | HideProgressRow

record preview =
  pv_camera :: camera
  pv_snapshot :: "string option"
  pv_status :: string

datatype panel_content =
    OtherContent string
  | LoadingIndicator
  | PreviewGrid "preview list"
  | FailedToLoadPreviews

text \<open>
  The page: which elements \<open>document.getElementById\<close> finds, the path of the
  location, and the state of the depersonalization checkbox. None of it is written by
  the functions below.
\<close>

record page =
  pathname :: string
  has_camerasList :: bool
  has_videosGrid :: bool
  has_uploadedVideosGrid :: bool
  has_enableDepersonalization :: bool
  depersonalize_checked :: bool
  has_processingProgressRow :: bool
  has_progressBar :: bool
  has_progressText :: bool
  has_statusText :: bool
  has_processVideoBtn :: bool
  has_processedVideo :: bool
  has_uploadBtn :: bool
  has_cameraPreview :: bool
  has_cameraPreviewModal :: bool
  has_cameraStream :: bool
  has_streamStatus :: bool
  has_cameraInfo :: bool

text \<open>
  The fields of the \<open>VideoAnalysisApp\<close> object, then the content of the elements the
  functions write, then the recorded effects.
\<close>

record app =
  cameras :: "camera list"
  videos :: "string list"
  uploadedVideos :: "string list"
  currentVideo :: "video_info option"
  retryCount :: nat
  maxRetries :: nat
  isUploading :: bool
  isProcessing :: bool
  videoFile :: "upload_file option"
  progressRow_display :: string
  bar_width :: rat
  bar_valuenow :: int
  progressText :: int
  statusText :: string
  processBtn_disabled :: bool
  uploadBtn_disabled :: bool
  processedVideo_src :: "string option"
  previewPanel :: panel_content
  streamStatus :: string
  streamStatus_display :: string
  stream_onerror :: "nat option"
  snapshot_img :: "string option"
  notifications :: "(string \<times> string) list"
  requests :: "request list"
  timers :: "(nat \<times> timer_action) list"

text \<open>
  The fields as the constructor sets them, before \<open>init\<close> runs, on a page whose
  elements are still untouched.
\<close>

definition constructor :: app where
  "constructor = \<lparr> cameras = [], videos = [], uploadedVideos = [], currentVideo = None,
     retryCount = 0, maxRetries = 3, isUploading = False, isProcessing = False,
     videoFile = None, progressRow_display = ''none'', bar_width = 0, bar_valuenow = 0,
     progressText = 0, statusText = [], processBtn_disabled = False,
     uploadBtn_disabled = False, processedVideo_src = None,
     previewPanel = OtherContent [], streamStatus = [], streamStatus_display = ''none'',
     stream_onerror = None, snapshot_img = None,
     notifications = [], requests = [], timers = [] \<rparr>"

text \<open>The result of the synchronous part of an \<open>async\<close> method.\<close>

datatype 'a suspension = Returned 'a | Suspended 'a

fun state_of :: "'a suspension \<Rightarrow> 'a" where
  "state_of (Returned s) = s"
| "state_of (Suspended s) = s"

fun is_suspended :: "'a suspension \<Rightarrow> bool" where
  "is_suspended (Returned s) = False"
| "is_suspended (Suspended s) = True"

subsection \<open>Notifications and template strings\<close>

definition showNotification :: "string \<Rightarrow> string \<Rightarrow> app \<Rightarrow> app" where
  "showNotification message type s = s\<lparr>notifications := notifications s @ [(message, type)]\<rparr>"

text \<open>The decimal digits of a number, as a template literal prints it.\<close>

definition digit_char :: "nat \<Rightarrow> char" where
  "digit_char d = ''0123456789'' ! d"

fun string_of_nat :: "nat \<Rightarrow> string" where
  "string_of_nat n =
     (if n < 10 then [digit_char n]
      else string_of_nat (n div 10) @ [digit_char (n mod 10)])"

declare string_of_nat.simps [simp del]

text \<open>\<open>a || d\<close> on an optional string: undefined and the empty string are falsy.\<close>

fun js_or :: "string option \<Rightarrow> string \<Rightarrow> string" where
  "js_or None d = d"
| "js_or (Some a) d = (if a = [] then d else a)"

subsection \<open>Resource loader\<close>

text \<open>
  The loaders below take a body that parses to be a list the render functions accept.

  \<open>handleApiError(resource, error)\<close>. The callback given to \<open>setTimeout\<close> reloads the
  resource named by the key; it is recorded as \<open>RetryLoad resource\<close> with its delay in
  milliseconds.
\<close>

definition handleApiError :: "string \<Rightarrow> app \<Rightarrow> app" where
  "handleApiError resource s =
     (if retryCount s < maxRetries s then
        (let s1 = s\<lparr>retryCount := retryCount s + 1\<rparr>
         in s1\<lparr>timers := timers s1 @ [(1000 * retryCount s1, RetryLoad resource)]\<rparr>)
      else
        (let s1 = showNotification
                    (''Failed to load '' @ resource @ '' after '' @
                       string_of_nat (maxRetries s) @ '' attempts'') ''error'' s
         in s1\<lparr>retryCount := 0\<rparr>))"

definition loadCameras_begin :: "page \<Rightarrow> app \<Rightarrow> app suspension" where
  "loadCameras_begin pg s =
     (if pathname pg = ''/library'' then Returned s
      else Suspended (s\<lparr>requests := requests s @ [GetCameras]\<rparr>))"

fun loadCameras_resume :: "page \<Rightarrow> camera list response \<Rightarrow> app \<Rightarrow> app" where
  "loadCameras_resume pg NetworkFailure s = handleApiError ''cameras'' s"
| "loadCameras_resume pg (Reply st txt b) s =
     (if \<not> ok (Reply st txt b) then handleApiError ''cameras'' s
      else case b of
             None \<Rightarrow> handleApiError ''cameras'' s
           | Some cs \<Rightarrow> s\<lparr>cameras := cs, retryCount := 0\<rparr>)"

definition loadVideos_begin :: "page \<Rightarrow> app \<Rightarrow> app suspension" where
  "loadVideos_begin pg s = Suspended (s\<lparr>requests := requests s @ [GetVideos]\<rparr>)"

fun loadVideos_resume :: "page \<Rightarrow> string list response \<Rightarrow> app \<Rightarrow> app" where
  "loadVideos_resume pg NetworkFailure s = handleApiError ''videos'' s"
| "loadVideos_resume pg (Reply st txt b) s =
     (if \<not> ok (Reply st txt b) then handleApiError ''videos'' s
      else case b of
             None \<Rightarrow> handleApiError ''videos'' s
           | Some vs \<Rightarrow> s\<lparr>videos := vs\<rparr>)"

definition loadUploadedVideos_begin :: "page \<Rightarrow> app \<Rightarrow> app suspension" where
  "loadUploadedVideos_begin pg s =
     (if pathname pg = ''/library'' then Returned s
      else Suspended (s\<lparr>requests := requests s @ [GetUploadedVideos]\<rparr>))"

fun loadUploadedVideos_resume :: "page \<Rightarrow> string list response \<Rightarrow> app \<Rightarrow> app" where
  "loadUploadedVideos_resume pg NetworkFailure s = handleApiError ''uploaded-videos'' s"
| "loadUploadedVideos_resume pg (Reply st txt b) s =
     (if \<not> ok (Reply st txt b) then handleApiError ''uploaded-videos'' s
      else case b of
             None \<Rightarrow> handleApiError ''uploaded-videos'' s
           | Some vs \<Rightarrow> s\<lparr>uploadedVideos := vs\<rparr>)"

text \<open>Consecutive failed fetches, each for the key given.\<close>

fun failures :: "string list \<Rightarrow> app \<Rightarrow> app" where
  "failures [] s = s"
| "failures (r # rs) s = failures rs (handleApiError r s)"

subsection \<open>Submitting a video for processing\<close>

text \<open>
  What a \<open>catch\<close> block receives. The message of a rejected \<open>fetch\<close> is the
  browser's own text.
\<close>

datatype js_error = FetchFailed | BodyUnreadable | Thrown string

fun error_message :: "js_error \<Rightarrow> string" where
  "error_message FetchFailed = ''Failed to fetch''"
| "error_message BodyUnreadable = ''Unexpected end of JSON input''"
| "error_message (Thrown m) = m"

text \<open>An optional string inside a template literal.\<close>

fun template_of :: "string option \<Rightarrow> string" where
  "template_of None = ''undefined''"
| "template_of (Some a) = a"

text \<open>
  The closure that \<open>startProgressPolling\<close> creates: its local variables, whether the
  interval timer is still set, whether the ten minute timer has yet to fire, and how
  many interval callbacks are waiting for the reply to their probe.
\<close>

record poller =
  processedFilename :: "string option"
  progress :: rat
  lastProgress :: rat
  interval_active :: bool
  timeout_armed :: bool
  probes_in_flight :: nat

definition startProgressPolling :: "string option \<Rightarrow> poller" where
  "startProgressPolling name =
     \<lparr> processedFilename = name, progress = 0, lastProgress = 0,
       interval_active = True, timeout_armed = True, probes_in_flight = 0 \<rparr>"

definition processVideo_begin :: "page \<Rightarrow> app \<Rightarrow> app suspension" where
  "processVideo_begin pg s =
     (if isProcessing s then Returned s
      else
        let s1 = s\<lparr>isProcessing := True\<rparr> in
        case currentVideo s1 of
          None \<Rightarrow>
            Returned ((showNotification ''Please upload a video first'' ''error'' s1)
                        \<lparr>isProcessing := False\<rparr>)
        | Some v \<Rightarrow>
            if \<not> has_enableDepersonalization pg then Returned s1
            else
              let s2 = (if has_processingProgressRow pg
                        then s1\<lparr>progressRow_display := ''block''\<rparr> else s1)
              in
              if \<not> has_progressBar pg \<or> \<not> has_progressText pg \<or> \<not> has_statusText pg
              then Returned (showNotification ''Progress display not available'' ''warning'' s2)
              else
                let s3 = s2\<lparr>bar_width := 0, bar_valuenow := 0, progressText := 0,
                            statusText := ''Starting video processing...''\<rparr>;
                    s4 = (if has_processVideoBtn pg
                          then s3\<lparr>processBtn_disabled := True\<rparr> else s3)
                in Suspended (s4\<lparr>requests := requests s4 @
                       [PostProcessVideo (vi_filename v) (depersonalize_checked pg)]\<rparr>))"

text \<open>The \<open>catch\<close> block logs the error it receives and shows a fixed text.\<close>

definition processVideo_catch :: "js_error \<Rightarrow> app \<Rightarrow> app" where
  "processVideo_catch err s =
     showNotification ''Processing failed'' ''error'' (s\<lparr>statusText := ''Processing failed''\<rparr>)"

definition processVideo_finally :: "page \<Rightarrow> app \<Rightarrow> app" where
  "processVideo_finally pg s =
     (let s1 = s\<lparr>isProcessing := False\<rparr>
      in if has_processVideoBtn pg then s1\<lparr>processBtn_disabled := False\<rparr> else s1)"

fun processVideo_resume :: "page \<Rightarrow> process_json response \<Rightarrow> app \<Rightarrow> app \<times> poller option" where
  "processVideo_resume pg NetworkFailure s =
     (processVideo_finally pg (processVideo_catch FetchFailed s), None)"
| "processVideo_resume pg (Reply st txt b) s =
     (if \<not> ok (Reply st txt b) then
        (case b of
           None \<Rightarrow> (processVideo_finally pg (processVideo_catch BodyUnreadable s), None)
         | Some errorData \<Rightarrow>
             (processVideo_finally pg
                (processVideo_catch
                   (Thrown (js_or (pj_error errorData) ''Processing failed'')) s), None))
      else
        (case b of
           None \<Rightarrow> (processVideo_finally pg (processVideo_catch BodyUnreadable s), None)
         | Some data \<Rightarrow>
             (processVideo_finally pg s,
              Some (startProgressPolling (pj_processed_filename data)))))"

subsection \<open>Completion poller\<close>

definition status_for :: "rat \<Rightarrow> string \<Rightarrow> string" where
  "status_for p old =
     (if p < 20 then ''Initializing video processing...''
      else if p < 40 then ''Analyzing video content and detecting faces...''
      else if p < 60 then ''Processing license plates and objects...''
      else if p < 80 then ''Applying privacy protection and blurring...''
      else if p < 90 then ''Finalizing video encoding...''
      else old)"

text \<open>
  The estimator step of one interval callback; \<open>r\<close> is the value \<open>Math.random()\<close>
  returns. Numbers are rationals: the rounding of double precision addition is not
  modelled.
\<close>

definition advance :: "rat \<Rightarrow> rat \<Rightarrow> rat" where
  "advance r p =
     (if p < 90 then (let q = p + (r * 8 + 2) in if q > 90 then 90 else q) else p)"

text \<open>\<open>Math.round\<close>: the nearest integer, halves upwards.\<close>

definition math_round :: "rat \<Rightarrow> int" where
  "math_round x = \<lfloor>x + 1 / 2\<rfloor>"

text \<open>The interval callback up to its \<open>await fetch\<close>.\<close>

definition poll_tick :: "rat \<Rightarrow> poller \<times> app \<Rightarrow> poller \<times> app" where
  "poll_tick r ps =
     (case ps of (p, s) \<Rightarrow>
        let q = advance r (progress p);
            s1 = s\<lparr>bar_width := q, bar_valuenow := math_round q, progressText := math_round q\<rparr>;
            s2 = s1\<lparr>statusText := status_for q (statusText s1)\<rparr>
        in (p\<lparr>progress := q, probes_in_flight := probes_in_flight p + 1\<rparr>,
            s2\<lparr>requests := requests s2 @ [GetProcessedVideo (processedFilename p)]\<rparr>))"

text \<open>The interval callback from the reply to its probe on.\<close>

definition poll_reply :: "page \<Rightarrow> unit response \<Rightarrow> poller \<times> app \<Rightarrow> poller \<times> app" where
  "poll_reply pg resp ps =
     (case ps of (p, s) \<Rightarrow>
        let p0 = p\<lparr>probes_in_flight := probes_in_flight p - 1\<rparr> in
        if ok resp then
          (let s1 = s\<lparr>bar_width := 100, bar_valuenow := 100, progressText := 100,
                      statusText := ''Processing completed successfully!''\<rparr>;
               s2 = (if has_processedVideo pg
                     then s1\<lparr>processedVideo_src :=
                            Some (''/api/processed-video/'' @ template_of (processedFilename p))\<rparr>
                     else s1);
               s3 = showNotification ''Video processed successfully!'' ''success'' s2
           in (p0\<lparr>interval_active := False\<rparr>,
               s3\<lparr>timers := timers s3 @ [(3000, HideProgressRow)]\<rparr>))
        else
          (let s1 = (if \<bar>progress p - lastProgress p\<bar> < 1
                     then s\<lparr>statusText := ''Processing in progress... Please wait''\<rparr>
                     else s)
           in (p0\<lparr>lastProgress := progress p\<rparr>, s1)))"

text \<open>The callback of the ten minute timer.\<close>

definition poll_timeout :: "poller \<times> app \<Rightarrow> poller \<times> app" where
  "poll_timeout ps =
     (case ps of (p, s) \<Rightarrow>
        let p1 = p\<lparr>interval_active := False, timeout_armed := False\<rparr> in
        if progress p < 100 then
          (p1, showNotification ''Processing timeout - check server logs'' ''warning''
                 (s\<lparr>statusText := ''Processing timeout - check server logs''\<rparr>))
        else (p1, s))"

text \<open>
  The events of one job. An event happens only when it can: an interval callback
  starts only while the interval is set, a reply arrives only for a probe in flight,
  and the ten minute timer fires once. \<open>None\<close> says the event cannot happen.
\<close>

datatype poll_event = Tick rat | ProbeReply "unit response" | TimeoutFires

fun poll_step :: "page \<Rightarrow> poll_event \<Rightarrow> poller \<times> app \<Rightarrow> (poller \<times> app) option" where
  "poll_step pg (Tick r) (p, s) =
     (if interval_active p then Some (poll_tick r (p, s)) else None)"
| "poll_step pg (ProbeReply resp) (p, s) =
     (if 0 < probes_in_flight p then Some (poll_reply pg resp (p, s)) else None)"
| "poll_step pg TimeoutFires (p, s) =
     (if timeout_armed p then Some (poll_timeout (p, s)) else None)"

fun poll_run :: "page \<Rightarrow> poll_event list \<Rightarrow> poller \<times> app \<Rightarrow> (poller \<times> app) option" where
  "poll_run pg [] ps = Some ps"
| "poll_run pg (e # es) ps =
     (case poll_step pg e ps of None \<Rightarrow> None | Some ps' \<Rightarrow> poll_run pg es ps')"

subsection \<open>Uploading a video\<close>

definition allowedTypes :: "string list" where
  "allowedTypes = [''video/mp4'', ''video/avi'', ''video/mov'', ''video/mkv'', ''video/webm'']"

text \<open>\<open>handleVideoUpload\<close>, bound to the submit event of the form by \<open>bindEvents\<close>.\<close>

definition handleVideoUpload_begin :: "page \<Rightarrow> app \<Rightarrow> app suspension" where
  "handleVideoUpload_begin pg s =
     (if isUploading s then Returned s
      else
        let s1 = s\<lparr>isUploading := True\<rparr> in
        case videoFile s1 of
          None \<Rightarrow>
            Returned ((showNotification ''Please select a video file'' ''warning'' s1)
                        \<lparr>isUploading := False\<rparr>)
        | Some f \<Rightarrow>
            if file_type f \<notin> set allowedTypes then
              Returned (showNotification
                ''Please select a valid video file (MP4, AVI, MOV, MKV, WEBM)'' ''warning'' s1)
            else
              let s2 = showNotification ''Uploading video...'' ''info'' s1;
                  s3 = (if has_uploadBtn pg then s2\<lparr>uploadBtn_disabled := True\<rparr> else s2)
              in Suspended (s3\<lparr>requests := requests s3 @ [PostUploadVideo f]\<rparr>))"

definition handleVideoUpload_catch :: "js_error \<Rightarrow> app \<Rightarrow> app" where
  "handleVideoUpload_catch err s =
     showNotification (''Upload failed: '' @ error_message err) ''error'' s"

definition handleVideoUpload_finally :: "page \<Rightarrow> app \<Rightarrow> app" where
  "handleVideoUpload_finally pg s =
     (let s1 = s\<lparr>isUploading := False\<rparr>
      in if has_uploadBtn pg then s1\<lparr>uploadBtn_disabled := False\<rparr> else s1)"

text \<open>
  From the reply to the upload on. After a successful upload the method awaits
  \<open>loadUploadedVideos\<close>; when that issues a request the method is suspended again,
  with its \<open>finally\<close> block still to run.
\<close>

fun handleVideoUpload_reply :: "page \<Rightarrow> upload_json response \<Rightarrow> app \<Rightarrow> app suspension" where
  "handleVideoUpload_reply pg NetworkFailure s =
     Returned (handleVideoUpload_finally pg (handleVideoUpload_catch FetchFailed s))"
| "handleVideoUpload_reply pg (Reply st txt b) s =
     (if \<not> ok (Reply st txt b) then
        Returned (handleVideoUpload_finally pg
          (handleVideoUpload_catch
             (Thrown (''Upload failed: '' @ string_of_nat st @ '' '' @ txt)) s))
      else
        (case b of
           None \<Rightarrow>
             Returned (handleVideoUpload_finally pg (handleVideoUpload_catch BodyUnreadable s))
         | Some result \<Rightarrow>
             if uj_success result then
               (let s1 = showNotification ''Video uploaded successfully!'' ''success'' s;
                    s2 = s1\<lparr>videoFile := None\<rparr>;
                    s3 = (case uj_video_info result of
                            None \<Rightarrow> s2
                          | Some vi \<Rightarrow> s2\<lparr>currentVideo := Some vi\<rparr>)
                in case loadUploadedVideos_begin pg s3 of
                     Returned s4 \<Rightarrow> Returned (handleVideoUpload_finally pg s4)
                   | Suspended s4 \<Rightarrow> Suspended s4)
             else
               Returned (handleVideoUpload_finally pg
                 (showNotification (js_or (uj_error result) ''Upload failed'') ''error'' s))))"

definition handleVideoUpload_listReply :: "page \<Rightarrow> string list response \<Rightarrow> app \<Rightarrow> app" where
  "handleVideoUpload_listReply pg resp s =
     handleVideoUpload_finally pg (loadUploadedVideos_resume pg resp s)"

text \<open>\<open>uploadVideo\<close>, bound to the same submit event by \<open>initVideoUpload\<close>.\<close>

definition uploadVideo_begin :: "app \<Rightarrow> app suspension" where
  "uploadVideo_begin s =
     (case videoFile s of
        None \<Rightarrow> Returned (showNotification ''Please select a video file'' ''error'' s)
      | Some f \<Rightarrow> Suspended (s\<lparr>requests := requests s @ [PostUploadVideo f]\<rparr>))"

definition showVideoInfo :: "upload_json \<Rightarrow> app \<Rightarrow> app" where
  "showVideoInfo videoData s = s\<lparr>currentVideo := Some \<lparr>vi_filename = uj_filename videoData\<rparr>\<rparr>"

fun uploadVideo_reply :: "upload_json response \<Rightarrow> app \<Rightarrow> app" where
  "uploadVideo_reply NetworkFailure s = showNotification ''Upload failed'' ''error'' s"
| "uploadVideo_reply (Reply st txt b) s =
     (case b of
        None \<Rightarrow> showNotification ''Upload failed'' ''error'' s
      | Some data \<Rightarrow>
          if ok (Reply st txt b) then
            showNotification ''Video uploaded successfully!'' ''success'' (showVideoInfo data s)
          else showNotification (js_or (uj_error data) ''Upload failed'') ''error'' s)"

subsection \<open>Camera previews\<close>

record camera_data =
  camera_id :: nat
  camera_name :: string
  rtsp_url :: string

text \<open>
  \<open>showCameraPreviewModal\<close>. The \<open>onerror\<close> handler it installs on the stream
  element is recorded by the camera id its closure holds.
\<close>

definition showCameraPreviewModal :: "page \<Rightarrow> camera_data \<Rightarrow> app \<Rightarrow> app" where
  "showCameraPreviewModal pg cameraData s =
     (if \<not> has_cameraPreviewModal pg \<or> \<not> has_cameraStream pg \<or>
         \<not> has_streamStatus pg \<or> \<not> has_cameraInfo pg then
        showNotification ''Camera preview not available on this page'' ''warning'' s
      else s\<lparr>streamStatus_display := ''flex'', streamStatus := ''Connecting to camera...'',
             stream_onerror := Some (camera_id cameraData)\<rparr>)"

definition loadCameraSnapshot_begin :: "nat \<Rightarrow> app \<Rightarrow> app" where
  "loadCameraSnapshot_begin cameraId s = s\<lparr>requests := requests s @ [GetSnapshot cameraId]\<rparr>"

fun loadCameraSnapshot_reply :: "page \<Rightarrow> string response \<Rightarrow> app \<Rightarrow> app" where
  "loadCameraSnapshot_reply pg NetworkFailure s =
     showNotification ''Error capturing snapshot'' ''error'' s"
| "loadCameraSnapshot_reply pg (Reply st txt b) s =
     (if ok (Reply st txt b) then
        (case b of
           None \<Rightarrow> showNotification ''Error capturing snapshot'' ''error'' s
         | Some url \<Rightarrow>
             if \<not> has_cameraStream pg \<or> \<not> has_streamStatus pg then s
             else s\<lparr>snapshot_img := Some url, streamStatus_display := ''none''\<rparr>)
      else showNotification ''Failed to capture snapshot'' ''error'' s)"

text \<open>The \<open>onerror\<close> handler of the stream element.\<close>

definition videoElement_onerror :: "app \<Rightarrow> app" where
  "videoElement_onerror s =
     (case stream_onerror s of
        None \<Rightarrow> s
      | Some cameraId \<Rightarrow>
          loadCameraSnapshot_begin cameraId
            (s\<lparr>streamStatus := ''Failed to load stream. Trying snapshot...''\<rparr>))"

text \<open>
  \<open>updateCameraPreviews\<close> up to \<open>await Promise.all\<close>: one snapshot request per
  camera, issued in the order of the list.
\<close>

definition updateCameraPreviews_begin :: "page \<Rightarrow> app \<Rightarrow> app suspension" where
  "updateCameraPreviews_begin pg s =
     (if cameras s = [] then Returned s
      else if \<not> has_cameraPreview pg then Returned s
      else Suspended (s\<lparr>previewPanel := LoadingIndicator,
                        requests := requests s @ map (\<lambda>c. GetSnapshot (cam_id c)) (cameras s)\<rparr>))"

text \<open>What the function mapped over the cameras returns for one camera and its reply.\<close>

fun preview_of :: "camera \<Rightarrow> string response \<Rightarrow> preview" where
  "preview_of c NetworkFailure = \<lparr>pv_camera = c, pv_snapshot = None, pv_status = ''offline''\<rparr>"
| "preview_of c (Reply st txt b) =
     (if ok (Reply st txt b) then
        (case b of
           None \<Rightarrow> \<lparr>pv_camera = c, pv_snapshot = None, pv_status = ''offline''\<rparr>
         | Some url \<Rightarrow> \<lparr>pv_camera = c, pv_snapshot = Some url, pv_status = ''online''\<rparr>)
      else \<lparr>pv_camera = c, pv_snapshot = None, pv_status = ''offline''\<rparr>)"

text \<open>
  The rest of \<open>updateCameraPreviews\<close>, run once every request has its reply; the
  cameras are those the first part mapped over. \<open>None\<close>: some reply is still missing.
\<close>

definition updateCameraPreviews_join ::
    "camera list \<Rightarrow> string response list \<Rightarrow> app \<Rightarrow> app option" where
  "updateCameraPreviews_join cams resps s =
     (if length resps = length cams
      then Some (s\<lparr>previewPanel := PreviewGrid (map2 preview_of cams resps)\<rparr>)
      else None)"

text \<open>One refresh with the replies given: \<open>None\<close> when it returned before any request.\<close>

definition updateCameraPreviews :: "page \<Rightarrow> string response list \<Rightarrow> app \<Rightarrow> app option" where
  "updateCameraPreviews pg resps s =
     (case updateCameraPreviews_begin pg s of
        Returned s1 \<Rightarrow> None
      | Suspended s1 \<Rightarrow> updateCameraPreviews_join (cameras s) resps s1)"

subsection \<open>A session: the methods interleaved by the event loop\<close>

text \<open>
  The state of the object and the page, the polling closures created so far, and the
  number of invocations suspended at each \<open>await\<close>: of \<open>processVideo\<close> at its
  request, of \<open>handleVideoUpload\<close> at its upload request and at its reload of the
  uploaded videos, and of \<open>uploadVideo\<close> at its request.
\<close>

record session =
  the_app :: app
  pollers :: "poller list"
  process_awaiting :: nat
  upload_awaiting :: nat
  upload_list_awaiting :: nat
  legacy_upload_awaiting :: nat

datatype event =
    ChooseFile "upload_file option"
  | CallProcessVideo
  | ProcessVideoReply "process_json response"
  | CallHandleVideoUpload
  | HandleVideoUploadReply "upload_json response"
  | UploadedListReply "string list response"
  | CallUploadVideo
  | UploadVideoReply "upload_json response"
  | Poll nat poll_event

text \<open>
  One turn of the event loop. A reply is possible only for an invocation that waits for
  it; \<open>None\<close> says the event cannot happen in this state.
\<close>

fun session_step :: "page \<Rightarrow> event \<Rightarrow> session \<Rightarrow> session option" where
  "session_step pg (ChooseFile f) ss =
     Some (ss\<lparr>the_app := (the_app ss)\<lparr>videoFile := f\<rparr>\<rparr>)"
| "session_step pg CallProcessVideo ss =
     (case processVideo_begin pg (the_app ss) of
        Returned s \<Rightarrow> Some (ss\<lparr>the_app := s\<rparr>)
      | Suspended s \<Rightarrow>
          Some (ss\<lparr>the_app := s, process_awaiting := process_awaiting ss + 1\<rparr>))"
| "session_step pg (ProcessVideoReply resp) ss =
     (if process_awaiting ss = 0 then None
      else
        (case processVideo_resume pg resp (the_app ss) of
           (s, started) \<Rightarrow>
             Some (ss\<lparr>the_app := s, process_awaiting := process_awaiting ss - 1,
                      pollers := pollers ss @ (case started of None \<Rightarrow> [] | Some p \<Rightarrow> [p])\<rparr>)))"
| "session_step pg CallHandleVideoUpload ss =
     (case handleVideoUpload_begin pg (the_app ss) of
        Returned s \<Rightarrow> Some (ss\<lparr>the_app := s\<rparr>)
      | Suspended s \<Rightarrow>
          Some (ss\<lparr>the_app := s, upload_awaiting := upload_awaiting ss + 1\<rparr>))"
| "session_step pg (HandleVideoUploadReply resp) ss =
     (if upload_awaiting ss = 0 then None
      else
        (case handleVideoUpload_reply pg resp (the_app ss) of
           Returned s \<Rightarrow>
             Some (ss\<lparr>the_app := s, upload_awaiting := upload_awaiting ss - 1\<rparr>)
         | Suspended s \<Rightarrow>
             Some (ss\<lparr>the_app := s, upload_awaiting := upload_awaiting ss - 1,
                      upload_list_awaiting := upload_list_awaiting ss + 1\<rparr>)))"
| "session_step pg (UploadedListReply resp) ss =
     (if upload_list_awaiting ss = 0 then None
      else Some (ss\<lparr>the_app := handleVideoUpload_listReply pg resp (the_app ss),
                    upload_list_awaiting := upload_list_awaiting ss - 1\<rparr>))"
| "session_step pg CallUploadVideo ss =
     (case uploadVideo_begin (the_app ss) of
        Returned s \<Rightarrow> Some (ss\<lparr>the_app := s\<rparr>)
      | Suspended s \<Rightarrow>
          Some (ss\<lparr>the_app := s, legacy_upload_awaiting := legacy_upload_awaiting ss + 1\<rparr>))"
| "session_step pg (UploadVideoReply resp) ss =
     (if legacy_upload_awaiting ss = 0 then None
      else Some (ss\<lparr>the_app := uploadVideo_reply resp (the_app ss),
                    legacy_upload_awaiting := legacy_upload_awaiting ss - 1\<rparr>))"
| "session_step pg (Poll i e) ss =
     (if i < length (pollers ss) then
        (case poll_step pg e (pollers ss ! i, the_app ss) of
           None \<Rightarrow> None
         | Some (p, s) \<Rightarrow> Some (ss\<lparr>the_app := s, pollers := (pollers ss)[i := p]\<rparr>))
      else None)"

fun session_run :: "page \<Rightarrow> event list \<Rightarrow> session \<Rightarrow> session option" where
  "session_run pg [] ss = Some ss"
| "session_run pg (e # es) ss =
     (case session_step pg e ss of None \<Rightarrow> None | Some ss' \<Rightarrow> session_run pg es ss')"

text \<open>
  What the user does. \<open>bindEvents\<close> and \<open>initVideoUpload\<close> each add a listener to
  the click of the process button, both calling \<open>processVideo\<close>; to the submit of the
  upload form the first adds \<open>handleVideoUpload\<close> and the second \<open>uploadVideo\<close>.
  Listeners run in the order they were added.
\<close>

definition click_processVideoBtn :: "event list" where
  "click_processVideoBtn = [CallProcessVideo, CallProcessVideo]"

definition submit_videoUploadForm :: "event list" where
  "submit_videoUploadForm = [CallHandleVideoUpload, CallUploadVideo]"

text \<open>The number of polling loops whose interval timer is set.\<close>

definition polling_loops :: "session \<Rightarrow> nat" where
  "polling_loops ss = length (filter interval_active (pollers ss))"

definition polling_loops_after :: "page \<Rightarrow> event list \<Rightarrow> session \<Rightarrow> nat option" where
  "polling_loops_after pg es ss = map_option polling_loops (session_run pg es ss)"

text \<open>A session right after the constructor.\<close>

definition new_session :: session where
  "new_session = \<lparr> the_app = constructor, pollers = [], process_awaiting = 0,
     upload_awaiting = 0, upload_list_awaiting = 0, legacy_upload_awaiting = 0 \<rparr>"

text \<open>The page of the application with every element in place.\<close>

definition full_page :: page where
  "full_page = \<lparr> pathname = ''/'', has_camerasList = True, has_videosGrid = True,
     has_uploadedVideosGrid = True, has_enableDepersonalization = True,
     depersonalize_checked = True, has_processingProgressRow = True,
     has_progressBar = True, has_progressText = True, has_statusText = True,
     has_processVideoBtn = True, has_processedVideo = True, has_uploadBtn = True,
     has_cameraPreview = True, has_cameraPreviewModal = True, has_cameraStream = True,
     has_streamStatus = True, has_cameraInfo = True \<rparr>"

subsection \<open>Auxiliary notions for the properties\<close>

text \<open>A fetch failed: no reply, a status that is not a success, or an unreadable body.\<close>

definition fetch_failed :: "'b response \<Rightarrow> bool" where
  "fetch_failed resp =
     (case resp of NetworkFailure \<Rightarrow> True | Reply st txt b \<Rightarrow> \<not> ok resp \<or> b = None)"

text \<open>A snapshot was obtained: the reply is a success and its image could be read.\<close>

definition snapshot_obtained :: "string response \<Rightarrow> bool" where
  "snapshot_obtained resp =
     (case resp of NetworkFailure \<Rightarrow> False | Reply st txt b \<Rightarrow> ok resp \<and> b \<noteq> None)"

definition two_cameras :: "camera list" where
  "two_cameras = [\<lparr>cam_id = 1, cam_name = ''door''\<rparr>, \<lparr>cam_id = 2, cam_name = ''yard''\<rparr>]"

text \<open>A session in which a video has been uploaded, and two files a user may choose.\<close>

definition uploaded_app :: app where
  "uploaded_app = constructor\<lparr>currentVideo := Some \<lparr>vi_filename = Some ''clip.mp4''\<rparr>\<rparr>"

definition uploaded_session :: session where
  "uploaded_session = new_session\<lparr>the_app := uploaded_app\<rparr>"

definition text_file :: upload_file where
  "text_file = \<lparr>file_name = ''notes.txt'', file_type = ''text/plain'', file_size = 120\<rparr>"

definition mp4_file :: upload_file where
  "mp4_file = \<lparr>file_name = ''clip.mp4'', file_type = ''video/mp4'', file_size = 10485760\<rparr>"

text \<open>Replies of the backend to a processing submission and to a completion probe.\<close>

definition rejection :: "process_json response" where
  "rejection = Reply 400 ''BAD REQUEST''
     (Some \<lparr>pj_error = Some ''Video file not found'', pj_processed_filename = None\<rparr>)"

definition accepted :: "string \<Rightarrow> process_json response" where
  "accepted name = Reply 200 ''OK'' (Some \<lparr>pj_error = None, pj_processed_filename = Some name\<rparr>)"


definition ready :: "unit response" where
  "ready = Reply 200 ''OK'' None"

text \<open>Reading a field of the object or the page at the end of a run.\<close>

definition observe :: "(app \<Rightarrow> 'a) \<Rightarrow> session option \<Rightarrow> 'a option" where
  "observe f r = map_option (\<lambda>ss. f (the_app ss)) r"



text \<open>
  At most one \<open>processVideo\<close> waits for its reply, and then the \<open>processing\<close> flag
  is set; at most one \<open>handleVideoUpload\<close> waits for a reply, and then the
  \<open>uploading\<close> flag is set.
\<close>

definition single_flight :: "session \<Rightarrow> bool" where
  "single_flight ss =
     (process_awaiting ss \<le> 1
      \<and> (process_awaiting ss = 1 \<longrightarrow> isProcessing (the_app ss))
      \<and> upload_awaiting ss + upload_list_awaiting ss \<le> 1
      \<and> (upload_awaiting ss + upload_list_awaiting ss = 1 \<longrightarrow> isUploading (the_app ss)))"








section \<open>Properties\<close>

subsection \<open>Retry policy of the resource loader\<close>

lemma handleApiError_bound:
  "retryCount s \<le> maxRetries s \<Longrightarrow>
     retryCount (handleApiError r s) \<le> maxRetries (handleApiError r s)"
  by (simp add: handleApiError_def showNotification_def Let_def)

lemma handleApiError_maxRetries: "maxRetries (handleApiError r s) = maxRetries s"
  by (simp add: handleApiError_def showNotification_def Let_def)

lemma failures_bound:
  "retryCount s \<le> maxRetries s \<Longrightarrow> retryCount (failures rs s) \<le> maxRetries s"
proof (induction rs arbitrary: s)
  case Nil
  then show ?case by simp
next
  case (Cons r rs)
  have "retryCount (handleApiError r s) \<le> maxRetries (handleApiError r s)"
    using Cons.prems by (rule handleApiError_bound)
  then have "retryCount (failures rs (handleApiError r s)) \<le> maxRetries (handleApiError r s)"
    by (rule Cons.IH)
  then show ?case by (simp add: handleApiError_maxRetries)
qed

lemma failed_fetch_handled:
  "fetch_failed cresp \<Longrightarrow> loadCameras_resume pg cresp s = handleApiError ''cameras'' s"
  "fetch_failed vresp \<Longrightarrow> loadVideos_resume pg vresp s = handleApiError ''videos'' s"
  "fetch_failed vresp \<Longrightarrow>
     loadUploadedVideos_resume pg vresp s = handleApiError ''uploaded-videos'' s"
  by (cases cresp; cases vresp; auto simp: fetch_failed_def)+

text \<open>
  Claim C6. Every failed fetch of the cameras, the videos or the uploaded videos is
  handled by \<open>handleApiError\<close> with the key of the resource. While the attempt
  counter is below the maximum the loader increments it and schedules a retry after
  1000 ms times the new counter value, showing no notification; once the counter has
  reached the maximum the loader shows one final failure notification, schedules
  nothing and resets the counter to zero. Over any sequence of failed fetches the
  counter never exceeds the maximum.
\<close>

theorem handleApiError_retry_policy:
  "(retryCount s < maxRetries s \<longrightarrow>
      handleApiError r s =
        s\<lparr>retryCount := retryCount s + 1,
          timers := timers s @ [(1000 * (retryCount s + 1), RetryLoad r)]\<rparr>
      \<and> notifications (handleApiError r s) = notifications s)
   \<and> (\<not> retryCount s < maxRetries s \<longrightarrow>
      notifications (handleApiError r s) =
        notifications s @
          [(''Failed to load '' @ r @ '' after '' @ string_of_nat (maxRetries s) @ '' attempts'',
            ''error'')]
      \<and> retryCount (handleApiError r s) = 0
      \<and> timers (handleApiError r s) = timers s)
   \<and> (retryCount s \<le> maxRetries s \<longrightarrow> retryCount (failures rs s) \<le> maxRetries s)
   \<and> (fetch_failed cresp \<longrightarrow> loadCameras_resume pg cresp s = handleApiError ''cameras'' s)
   \<and> (fetch_failed vresp \<longrightarrow>
        loadVideos_resume pg vresp s = handleApiError ''videos'' s
        \<and> loadUploadedVideos_resume pg vresp s = handleApiError ''uploaded-videos'' s)"
  using failures_bound [of s rs] failed_fetch_handled
  by (simp add: handleApiError_def showNotification_def Let_def)

text \<open>
  Four failed fetches in a row after the constructor: retries after 1 s, 2 s and 3 s,
  then one notification and a counter back at zero.
\<close>

theorem handleApiError_retry_policy_witness:
  "retryCount constructor < maxRetries constructor
   \<and> fetch_failed (NetworkFailure :: camera list response)
   \<and> fetch_failed (Reply 500 ''INTERNAL SERVER ERROR'' None :: string list response)
   \<and> loadCameras_resume full_page NetworkFailure constructor =
       constructor\<lparr>retryCount := 1, timers := [(1000, RetryLoad ''cameras'')]\<rparr>
   \<and> \<not> retryCount (failures [''cameras'', ''videos'', ''cameras''] constructor)
         < maxRetries (failures [''cameras'', ''videos'', ''cameras''] constructor)
   \<and> timers (failures [''cameras'', ''videos'', ''cameras'', ''cameras''] constructor) =
       [(1000, RetryLoad ''cameras''), (2000, RetryLoad ''videos''), (3000, RetryLoad ''cameras'')]
   \<and> notifications (failures [''cameras'', ''videos'', ''cameras'', ''cameras''] constructor) =
       [(''Failed to load cameras after 3 attempts'', ''error'')]
   \<and> retryCount (failures [''cameras'', ''videos'', ''cameras'', ''cameras''] constructor) = 0"
  using handleApiError_retry_policy [where s = constructor and r = "''cameras''" and rs = "[]"
          and pg = full_page and cresp = NetworkFailure
          and vresp = "Reply 500 ''INTERNAL SERVER ERROR'' None"]
        handleApiError_retry_policy [where
          s = "failures [''cameras'', ''videos'', ''cameras''] constructor"
          and r = "''cameras''" and rs = "[]"
          and pg = full_page and cresp = NetworkFailure
          and vresp = "Reply 500 ''INTERNAL SERVER ERROR'' None"]
  by (simp add: constructor_def handleApiError_def showNotification_def Let_def
        string_of_nat.simps digit_char_def fetch_failed_def)

text \<open>
  Claim C5, as stated, fails. There is a single attempt counter: a failed fetch of the
  videos changes the counter that the next failed fetch of the cameras reads, so that
  after three failed fetches of the videos the first failed fetch of the cameras is
  reported as final without any retry, while on a fresh counter it is retried. Nor does
  a successful fetch of the videos reset the counter.
\<close>

theorem retry_counter_per_key_counterexample:
  "retryCount (loadVideos_resume full_page NetworkFailure constructor) = 1
   \<and> timers (loadCameras_resume full_page NetworkFailure constructor) =
       [(1000, RetryLoad ''cameras'')]
   \<and> notifications (loadCameras_resume full_page NetworkFailure constructor) = []
   \<and> timers (loadCameras_resume full_page NetworkFailure
         (failures [''videos'', ''videos'', ''videos''] constructor)) =
       [(1000, RetryLoad ''videos''), (2000, RetryLoad ''videos''), (3000, RetryLoad ''videos'')]
   \<and> notifications (loadCameras_resume full_page NetworkFailure
         (failures [''videos'', ''videos'', ''videos''] constructor)) =
       [(''Failed to load cameras after 3 attempts'', ''error'')]
   \<and> retryCount (loadVideos_resume full_page (Reply 200 ''OK'' (Some []))
         (loadVideos_resume full_page NetworkFailure constructor)) = 1"
  by (simp add: constructor_def handleApiError_def showNotification_def Let_def
        string_of_nat.simps digit_char_def)

text \<open>
  Claim C5, amended. Retry state is one attempt counter shared by all resource keys:
  a failed fetch of the cameras, the videos or the uploaded videos goes through
  \<open>handleApiError\<close>, which updates that counter by the same rule whatever the key
  (one more while below the maximum, zero once the maximum is reached); and the
  counter returns to zero whenever a fetch of the cameras succeeds.
\<close>

theorem retry_counter_shared:
  "retryCount (handleApiError r s) = (if retryCount s < maxRetries s then retryCount s + 1 else 0)
   \<and> (\<not> ok cresp \<longrightarrow> loadCameras_resume pg cresp s = handleApiError ''cameras'' s)
   \<and> (\<not> ok vresp \<longrightarrow> loadVideos_resume pg vresp s = handleApiError ''videos'' s
                     \<and> loadUploadedVideos_resume pg vresp s = handleApiError ''uploaded-videos'' s)
   \<and> (ok (Reply st msg (Some cs)) \<longrightarrow>
        retryCount (loadCameras_resume pg (Reply st msg (Some cs)) s) = 0
        \<and> cameras (loadCameras_resume pg (Reply st msg (Some cs)) s) = cs)"
proof -
  have 1: "retryCount (handleApiError r s) =
             (if retryCount s < maxRetries s then retryCount s + 1 else 0)"
    by (simp add: handleApiError_def showNotification_def Let_def)
  have 2: "\<not> ok cresp \<longrightarrow> loadCameras_resume pg cresp s = handleApiError ''cameras'' s"
    by (cases cresp) simp_all
  have 3: "\<not> ok vresp \<longrightarrow> loadVideos_resume pg vresp s = handleApiError ''videos'' s
             \<and> loadUploadedVideos_resume pg vresp s = handleApiError ''uploaded-videos'' s"
    by (cases vresp) simp_all
  have 4: "ok (Reply st msg (Some cs)) \<longrightarrow>
        retryCount (loadCameras_resume pg (Reply st msg (Some cs)) s) = 0
        \<and> cameras (loadCameras_resume pg (Reply st msg (Some cs)) s) = cs"
    by simp
  from 1 2 3 4 show ?thesis by blast
qed

theorem retry_counter_shared_witness:
  "\<not> ok (NetworkFailure :: camera list response)
   \<and> \<not> ok (Reply 503 ''Service Unavailable'' None :: string list response)
   \<and> ok (Reply 200 ''OK'' (Some two_cameras))
   \<and> retryCount (loadVideos_resume full_page (Reply 503 ''Service Unavailable'' None) constructor) = 1
   \<and> retryCount (loadCameras_resume full_page NetworkFailure
        (loadVideos_resume full_page (Reply 503 ''Service Unavailable'' None) constructor)) = 2
   \<and> retryCount (loadCameras_resume full_page (Reply 200 ''OK'' (Some two_cameras))
        (constructor\<lparr>retryCount := 2\<rparr>)) = 0"
  using retry_counter_shared [where r = "''videos''" and s = constructor and pg = full_page
          and cresp = NetworkFailure and vresp = "Reply 503 ''Service Unavailable'' None"
          and st = 200 and msg = "''OK''" and cs = two_cameras]
        retry_counter_shared [where r = "''cameras''"
          and s = "handleApiError ''videos'' constructor" and pg = full_page
          and cresp = NetworkFailure and vresp = "Reply 503 ''Service Unavailable'' None"
          and st = 200 and msg = "''OK''" and cs = two_cameras]
        retry_counter_shared [where r = "''cameras''"
          and s = "constructor\<lparr>retryCount := 2\<rparr>" and pg = full_page
          and cresp = NetworkFailure and vresp = "Reply 503 ''Service Unavailable'' None"
          and st = 200 and msg = "''OK''" and cs = two_cameras]
  by (simp add: constructor_def handleApiError_def showNotification_def Let_def)

subsection \<open>Guards and submissions\<close>

text \<open>
  Claim C1 at a failing input. A file of an unaccepted type makes
  \<open>handleVideoUpload\<close> return with the \<open>uploading\<close> flag still set, and a later call
  with an accepted file is then rejected by the guard: no request is ever issued. On a
  page without the progress text element \<open>processVideo\<close> returns with the
  \<open>processing\<close> flag still set, and the next call is rejected in the same way.
\<close>

theorem guard_left_held_after_validation_rejection:
  "observe isUploading
     (session_run full_page [ChooseFile (Some text_file), CallHandleVideoUpload] new_session) =
     Some True
   \<and> observe requests
     (session_run full_page
        [ChooseFile (Some text_file), CallHandleVideoUpload,
         ChooseFile (Some mp4_file), CallHandleVideoUpload] new_session) = Some []
   \<and> observe isProcessing
     (session_run (full_page\<lparr>has_progressText := False\<rparr>) [CallProcessVideo] uploaded_session) =
     Some True
   \<and> observe requests
     (session_run (full_page\<lparr>has_progressText := False\<rparr>)
        [CallProcessVideo, CallProcessVideo] uploaded_session) = Some []"
  by (simp add: observe_def new_session_def uploaded_session_def uploaded_app_def
        constructor_def full_page_def text_file_def mp4_file_def allowedTypes_def
        handleVideoUpload_begin_def processVideo_begin_def showNotification_def Let_def)

text \<open>
  Claim C7 at a failing input. The backend rejects the submission with status 400 and
  the error text \<open>Video file not found\<close>; the notification shown and the status text
  are the fixed \<open>Processing failed\<close>.
\<close>

theorem processVideo_rejection_shows_generic_text:
  "observe notifications
     (session_run full_page [CallProcessVideo, ProcessVideoReply rejection] uploaded_session) =
     Some [(''Processing failed'', ''error'')]
   \<and> observe statusText
     (session_run full_page [CallProcessVideo, ProcessVideoReply rejection] uploaded_session) =
     Some ''Processing failed''"
  by (simp add: observe_def new_session_def uploaded_session_def uploaded_app_def
        constructor_def full_page_def rejection_def processVideo_begin_def
        processVideo_catch_def processVideo_finally_def showNotification_def Let_def)

text \<open>
  Claim C8 at a failing input. One submit of the upload form with a chosen text file:
  \<open>handleVideoUpload\<close> rejects the file but leaves the \<open>uploading\<close> flag set, which
  was clear before, and \<open>uploadVideo\<close>, run by the same event, posts the file.
\<close>

theorem submit_of_unaccepted_type_is_sent:
  "observe requests
     (session_run full_page (ChooseFile (Some text_file) # submit_videoUploadForm) new_session) =
     Some [PostUploadVideo text_file]
   \<and> observe notifications
     (session_run full_page (ChooseFile (Some text_file) # submit_videoUploadForm) new_session) =
     Some [(''Please select a valid video file (MP4, AVI, MOV, MKV, WEBM)'', ''warning'')]
   \<and> observe isUploading
     (session_run full_page (ChooseFile (Some text_file) # submit_videoUploadForm) new_session) =
     Some True
   \<and> observe isUploading (Some new_session) = Some False"
  by (simp add: observe_def new_session_def constructor_def full_page_def text_file_def
        allowedTypes_def submit_videoUploadForm_def handleVideoUpload_begin_def
        uploadVideo_begin_def showNotification_def Let_def)

subsection \<open>Completion poller\<close>

text \<open>
  Claim C2 at a failing input. A job is accepted, its first probe returns success, and
  later the ten minute timer fires: the success notification is followed by the timeout
  warning, and the status text of the completed job, whose bar shows 100, is replaced
  by the timeout text.
\<close>

theorem timeout_fires_after_success:
  "observe notifications
     (session_run full_page
        [CallProcessVideo, ProcessVideoReply (accepted ''out.mp4''),
         Poll 0 (Tick (1 / 2)), Poll 0 (ProbeReply ready), Poll 0 TimeoutFires]
        uploaded_session) =
     Some [(''Video processed successfully!'', ''success''),
           (''Processing timeout - check server logs'', ''warning'')]
   \<and> observe statusText
     (session_run full_page
        [CallProcessVideo, ProcessVideoReply (accepted ''out.mp4''),
         Poll 0 (Tick (1 / 2)), Poll 0 (ProbeReply ready), Poll 0 TimeoutFires]
        uploaded_session) =
     Some ''Processing timeout - check server logs''
   \<and> observe bar_valuenow
     (session_run full_page
        [CallProcessVideo, ProcessVideoReply (accepted ''out.mp4''),
         Poll 0 (Tick (1 / 2)), Poll 0 (ProbeReply ready), Poll 0 TimeoutFires]
        uploaded_session) = Some 100"
  by (simp add: observe_def new_session_def uploaded_session_def uploaded_app_def
        constructor_def full_page_def accepted_def ready_def processVideo_begin_def
        processVideo_finally_def startProgressPolling_def poll_tick_def poll_reply_def
        poll_timeout_def advance_def status_for_def math_round_def showNotification_def Let_def)

















subsection \<open>Single flight\<close>

text \<open>
  Claim C3, as stated, fails. After the backend has accepted a submission the
  \<open>processing\<close> flag is cleared while the job is polling; a second click on the
  process button is accepted, a second request is sent, and two polling loops have
  their interval set at the same time.
\<close>

theorem two_polling_loops_counterexample:
  "polling_loops_after full_page
     (click_processVideoBtn @ [ProcessVideoReply (accepted ''a.mp4'')] @
      click_processVideoBtn @ [ProcessVideoReply (accepted ''b.mp4'')]) uploaded_session = Some 2
   \<and> observe requests
     (session_run full_page
        (click_processVideoBtn @ [ProcessVideoReply (accepted ''a.mp4'')] @
         click_processVideoBtn @ [ProcessVideoReply (accepted ''b.mp4'')]) uploaded_session) =
     Some [PostProcessVideo (Some ''clip.mp4'') True, PostProcessVideo (Some ''clip.mp4'') True]"
  by (simp add: polling_loops_after_def polling_loops_def observe_def new_session_def
        click_processVideoBtn_def uploaded_session_def uploaded_app_def constructor_def full_page_def accepted_def
        processVideo_begin_def processVideo_finally_def startProgressPolling_def
        showNotification_def Let_def)

lemma handleApiError_flags:
  "isProcessing (handleApiError r s) = isProcessing s
   \<and> isUploading (handleApiError r s) = isUploading s"
  by (simp add: handleApiError_def showNotification_def Let_def)

lemma processVideo_begin_flags:
  "processVideo_begin pg s = Returned s' \<Longrightarrow>
     isUploading s' = isUploading s \<and> (isProcessing s \<longrightarrow> s' = s)"
  "processVideo_begin pg s = Suspended s' \<Longrightarrow>
     isUploading s' = isUploading s \<and> isProcessing s' \<and> \<not> isProcessing s"
  by (auto simp: processVideo_begin_def Let_def showNotification_def split: if_splits option.splits)

lemma processVideo_resume_flags:
  "processVideo_resume pg resp s = (s', started) \<Longrightarrow>
     isUploading s' = isUploading s \<and> \<not> isProcessing s'"
  by (cases resp)
     (auto simp: processVideo_finally_def processVideo_catch_def Let_def showNotification_def
        split: if_splits option.splits)

lemma handleVideoUpload_begin_flags:
  "handleVideoUpload_begin pg s = Returned s' \<Longrightarrow>
     isProcessing s' = isProcessing s \<and> (isUploading s \<longrightarrow> s' = s)"
  "handleVideoUpload_begin pg s = Suspended s' \<Longrightarrow>
     isProcessing s' = isProcessing s \<and> isUploading s' \<and> \<not> isUploading s"
  by (auto simp: handleVideoUpload_begin_def Let_def showNotification_def
        split: if_splits option.splits)

lemma handleVideoUpload_reply_flags:
  "handleVideoUpload_reply pg resp s = Returned s' \<Longrightarrow>
     isProcessing s' = isProcessing s \<and> \<not> isUploading s'"
  "handleVideoUpload_reply pg resp s = Suspended s' \<Longrightarrow>
     isProcessing s' = isProcessing s \<and> isUploading s' = isUploading s"
  by (cases resp;
      auto simp: handleVideoUpload_finally_def handleVideoUpload_catch_def Let_def
        showNotification_def loadUploadedVideos_begin_def
        split: if_splits option.splits suspension.splits)+

lemma handleVideoUpload_listReply_flags:
  "isProcessing (handleVideoUpload_listReply pg resp s) = isProcessing s
   \<and> \<not> isUploading (handleVideoUpload_listReply pg resp s)"
  by (cases resp)
     (auto simp: handleVideoUpload_listReply_def handleVideoUpload_finally_def Let_def
        handleApiError_flags split: option.splits)

lemma uploadVideo_begin_flags:
  "uploadVideo_begin s = r \<Longrightarrow>
     isProcessing (state_of r) = isProcessing s \<and> isUploading (state_of r) = isUploading s"
  by (auto simp: uploadVideo_begin_def showNotification_def split: option.splits)

lemma uploadVideo_reply_flags:
  "isProcessing (uploadVideo_reply resp s) = isProcessing s
   \<and> isUploading (uploadVideo_reply resp s) = isUploading s"
  by (cases resp) (auto simp: showNotification_def showVideoInfo_def split: option.splits)

lemma poll_step_flags:
  "poll_step pg e (p, s) = Some (p', s') \<Longrightarrow>
     isProcessing s' = isProcessing s \<and> isUploading s' = isUploading s"
  by (cases e)
     (auto simp: poll_tick_def poll_reply_def poll_timeout_def Let_def showNotification_def
        split: if_splits)

lemma session_step_single_flight:
  assumes "single_flight ss" and "session_step pg e ss = Some ss'"
  shows "single_flight ss'"
proof (cases e)
  case (ChooseFile f)
  with assms show ?thesis by (auto simp: single_flight_def)
next
  case CallProcessVideo
  with assms show ?thesis
    by (auto simp: single_flight_def split: suspension.splits dest: processVideo_begin_flags)
next
  case (ProcessVideoReply resp)
  with assms show ?thesis
    by (auto simp: single_flight_def split: if_splits prod.splits dest: processVideo_resume_flags)
next
  case CallHandleVideoUpload
  with assms show ?thesis
    by (auto simp: single_flight_def split: suspension.splits dest: handleVideoUpload_begin_flags)
next
  case (HandleVideoUploadReply resp)
  with assms show ?thesis
    by (auto simp: single_flight_def split: if_splits suspension.splits
          dest: handleVideoUpload_reply_flags)
next
  case (UploadedListReply resp)
  with assms show ?thesis
    by (auto simp: single_flight_def handleVideoUpload_listReply_flags split: if_splits)
next
  case CallUploadVideo
  with assms show ?thesis
    by (auto simp: single_flight_def split: suspension.splits dest: uploadVideo_begin_flags)
next
  case (UploadVideoReply resp)
  with assms show ?thesis
    by (auto simp: single_flight_def uploadVideo_reply_flags split: if_splits)
next
  case (Poll i pe)
  with assms show ?thesis
    by (auto simp: single_flight_def split: if_splits option.splits dest: poll_step_flags)
qed

lemma session_run_single_flight:
  "single_flight ss \<Longrightarrow> session_run pg es ss = Some ss' \<Longrightarrow> single_flight ss'"
proof (induction es arbitrary: ss)
  case Nil
  then show ?case by simp
next
  case (Cons e es)
  from Cons.prems(2) obtain ss1 where
    step: "session_step pg e ss = Some ss1" and rest: "session_run pg es ss1 = Some ss'"
    by (auto split: option.splits)
  from session_step_single_flight [OF Cons.prems(1) step] have "single_flight ss1" .
  from Cons.IH [OF this rest] show ?case .
qed

text \<open>
  Claim C3, amended. In a session that starts with nothing in flight, after every
  sequence of events at most one \<open>processVideo\<close> waits for the reply to its submission
  and at most one \<open>handleVideoUpload\<close> waits for a reply to its upload; while one
  waits, a further call of the same method is rejected by its guard and changes
  nothing, so it sends no request.
\<close>

theorem one_submission_in_flight:
  assumes "process_awaiting ss = 0" and "upload_awaiting ss = 0" and "upload_list_awaiting ss = 0"
      and "session_run pg es ss = Some ss'"
  shows "process_awaiting ss' \<le> 1
       \<and> upload_awaiting ss' + upload_list_awaiting ss' \<le> 1
       \<and> (process_awaiting ss' = 1 \<longrightarrow> session_step pg CallProcessVideo ss' = Some ss')
       \<and> (upload_awaiting ss' + upload_list_awaiting ss' = 1 \<longrightarrow>
            session_step pg CallHandleVideoUpload ss' = Some ss')"
proof -
  from assms(1-3) have "single_flight ss" by (simp add: single_flight_def)
  from session_run_single_flight [OF this assms(4)] have sf: "single_flight ss'" .
  have a: "process_awaiting ss' = 1 \<longrightarrow> session_step pg CallProcessVideo ss' = Some ss'"
    using sf by (simp add: single_flight_def processVideo_begin_def)
  have b: "upload_awaiting ss' + upload_list_awaiting ss' = 1 \<longrightarrow>
            session_step pg CallHandleVideoUpload ss' = Some ss'"
    using sf by (simp add: single_flight_def handleVideoUpload_begin_def)
  from sf a b show ?thesis by (simp add: single_flight_def)
qed

text \<open>
  A user who has uploaded a video chooses another file, submits the form and clicks
  the process button, three times each, before any reply: one submission and one
  upload of \<open>handleVideoUpload\<close> are in flight.
\<close>

theorem one_submission_in_flight_witness:
  "process_awaiting uploaded_session = 0 \<and> upload_awaiting uploaded_session = 0
   \<and> upload_list_awaiting uploaded_session = 0
   \<and> map_option process_awaiting
        (session_run full_page
           [ChooseFile (Some mp4_file), CallHandleVideoUpload, CallProcessVideo,
            CallHandleVideoUpload, CallProcessVideo, CallHandleVideoUpload, CallProcessVideo]
           uploaded_session) = Some 1
   \<and> map_option upload_awaiting
        (session_run full_page
           [ChooseFile (Some mp4_file), CallHandleVideoUpload, CallProcessVideo,
            CallHandleVideoUpload, CallProcessVideo, CallHandleVideoUpload, CallProcessVideo]
           uploaded_session) = Some 1
   \<and> observe requests
        (session_run full_page
           [ChooseFile (Some mp4_file), CallHandleVideoUpload, CallProcessVideo,
            CallHandleVideoUpload, CallProcessVideo, CallHandleVideoUpload, CallProcessVideo]
           uploaded_session) =
       Some [PostUploadVideo mp4_file, PostProcessVideo (Some ''clip.mp4'') True]"
proof -
  let ?es = "[ChooseFile (Some mp4_file), CallHandleVideoUpload, CallProcessVideo,
            CallHandleVideoUpload, CallProcessVideo, CallHandleVideoUpload, CallProcessVideo]"
  let ?end = "the (session_run full_page ?es uploaded_session)"
  note ev = observe_def new_session_def uploaded_session_def uploaded_app_def constructor_def
    full_page_def mp4_file_def allowedTypes_def handleVideoUpload_begin_def
    processVideo_begin_def showNotification_def Let_def
  have h1: "process_awaiting uploaded_session = 0"
    by (simp add: uploaded_session_def new_session_def)
  have h2: "upload_awaiting uploaded_session = 0"
    by (simp add: uploaded_session_def new_session_def)
  have h3: "upload_list_awaiting uploaded_session = 0"
    by (simp add: uploaded_session_def new_session_def)
  have h4: "session_run full_page ?es uploaded_session = Some ?end"
    by (simp add: ev)
  note t = one_submission_in_flight [OF h1 h2 h3 h4]
  have c1: "map_option process_awaiting (session_run full_page ?es uploaded_session) = Some 1"
    by (simp add: ev)
  have c2: "map_option upload_awaiting (session_run full_page ?es uploaded_session) = Some 1"
    by (simp add: ev)
  have c3: "observe requests (session_run full_page ?es uploaded_session) =
       Some [PostUploadVideo mp4_file, PostProcessVideo (Some ''clip.mp4'') True]"
    by (simp add: ev)
  from t h1 h2 h3 c1 c2 c3 show ?thesis by blast
qed

subsection \<open>Camera previews\<close>

lemma preview_of_status:
  "pv_camera (preview_of c resp) = c
   \<and> pv_status (preview_of c resp) = (if snapshot_obtained resp then ''online'' else ''offline'')"
  by (cases resp) (auto simp: snapshot_obtained_def split: option.splits)

text \<open>
  Claim C9. The error handler that \<open>showCameraPreviewModal\<close> installs for a camera
  issues a snapshot request for that camera, and shows no failure and touches no
  preview panel while doing so. A periodic refresh over a non-empty camera list issues
  one snapshot request per camera and then renders the panel with one entry per
  camera, in order: each entry carries its own camera and is tagged online exactly
  when that camera's snapshot was obtained, whatever the replies for the others.
\<close>

theorem preview_degrades_per_camera:
  "(has_cameraPreviewModal pg \<and> has_cameraStream pg \<and> has_streamStatus pg \<and> has_cameraInfo pg
      \<longrightarrow>
      requests (videoElement_onerror (showCameraPreviewModal pg d s)) =
        requests s @ [GetSnapshot (camera_id d)]
      \<and> notifications (videoElement_onerror (showCameraPreviewModal pg d s)) = notifications s
      \<and> previewPanel (videoElement_onerror (showCameraPreviewModal pg d s)) = previewPanel s)
   \<and> (cameras s \<noteq> [] \<and> has_cameraPreview pg \<and> length resps = length (cameras s) \<longrightarrow>
      (\<exists>s'. updateCameraPreviews pg resps s = Some s'
            \<and> requests s' = requests s @ map (\<lambda>c. GetSnapshot (cam_id c)) (cameras s)
            \<and> notifications s' = notifications s
            \<and> previewPanel s' = PreviewGrid (map2 preview_of (cameras s) resps))
      \<and> length (map2 preview_of (cameras s) resps) = length (cameras s)
      \<and> (\<forall>i < length (cameras s).
            pv_camera (map2 preview_of (cameras s) resps ! i) = cameras s ! i
          \<and> pv_status (map2 preview_of (cameras s) resps ! i) =
              (if snapshot_obtained (resps ! i) then ''online'' else ''offline'')))"
  by (simp add: videoElement_onerror_def showCameraPreviewModal_def loadCameraSnapshot_begin_def
        updateCameraPreviews_def updateCameraPreviews_begin_def updateCameraPreviews_join_def
        preview_of_status)

theorem preview_degrades_per_camera_witness:
  "has_cameraPreviewModal full_page \<and> has_cameraStream full_page
   \<and> has_streamStatus full_page \<and> has_cameraInfo full_page
   \<and> requests (videoElement_onerror (showCameraPreviewModal full_page
        \<lparr>camera_id = 7, camera_name = ''door'', rtsp_url = ''rtsp://door''\<rparr> constructor)) =
        [GetSnapshot 7]
   \<and> cameras (constructor\<lparr>cameras := two_cameras\<rparr>) \<noteq> [] \<and> has_cameraPreview full_page
   \<and> map_option previewPanel (updateCameraPreviews full_page
         [Reply 500 ''ERR'' None, Reply 200 ''OK'' (Some ''blob:1'')]
         (constructor\<lparr>cameras := two_cameras\<rparr>)) =
       Some (PreviewGrid
         [\<lparr>pv_camera = \<lparr>cam_id = 1, cam_name = ''door''\<rparr>, pv_snapshot = None, pv_status = ''offline''\<rparr>,
          \<lparr>pv_camera = \<lparr>cam_id = 2, cam_name = ''yard''\<rparr>, pv_snapshot = Some ''blob:1'',
            pv_status = ''online''\<rparr>])"
  using preview_degrades_per_camera [where pg = full_page and s = constructor and resps = "[]"
          and d = "\<lparr>camera_id = 7, camera_name = ''door'', rtsp_url = ''rtsp://door''\<rparr>"]
        preview_degrades_per_camera [where pg = full_page
          and s = "constructor\<lparr>cameras := two_cameras\<rparr>"
          and resps = "[Reply 500 ''ERR'' None, Reply 200 ''OK'' (Some ''blob:1'')]"
          and d = "\<lparr>camera_id = 7, camera_name = ''door'', rtsp_url = ''rtsp://door''\<rparr>"]
  by (auto simp: full_page_def constructor_def two_cameras_def)

text \<open>
  Claim C10. With an empty camera list the periodic refresh returns at once with the
  state as it was: no snapshot request is issued, the preview panel keeps its content
  (no loading indicator), and nothing is left waiting for replies.
\<close>

theorem updateCameraPreviews_no_cameras:
  "cameras s = [] \<Longrightarrow>
     updateCameraPreviews_begin pg s = Returned s \<and> updateCameraPreviews pg resps s = None"
  by (simp add: updateCameraPreviews_begin_def updateCameraPreviews_def)

theorem updateCameraPreviews_no_cameras_witness:
  "cameras constructor = []
   \<and> updateCameraPreviews_begin full_page constructor = Returned constructor
   \<and> updateCameraPreviews full_page [] constructor = None"
proof -
  have h: "cameras constructor = []" by (simp add: constructor_def)
  show ?thesis using h updateCameraPreviews_no_cameras [OF h, of full_page "[]"] by simp
qed

end
